theory Spec2Isabelle
  imports
    Complex_Main
    "HOL-Library.Char_ord"
    "HOL-Library.List_Lexorder"
    "HOL-Library.Product_Lexorder"
    "HOL-Library.Multiset"
begin

section \<open>Port usage report: the data of \<open>docs/port_usage_report.py\<close>\<close>

text \<open>
  Python strings are modelled as \<^typ>\<open>string\<close>, one \<^typ>\<open>char\<close> per code point,
  which covers text whose code points are below 256. The order on strings is the
  lexicographic order on code points, as Python's \<open>str.__lt__\<close>.
  Python integers are \<^typ>\<open>int\<close>; counters that only count upwards are \<^typ>\<open>nat\<close>.
\<close>

datatype pyval = PyNone | PyInt int | PyStr string

text \<open>The exceptions the script names, and one constructor for every other class.\<close>

datatype py_exc =
    FileNotFoundError
  | CalledProcessError string
  | NoSuchProcess
  | AccessDenied
  | ZombieProcess
  | OSError
  | OtherError

subsection \<open>String methods\<close>

text \<open>\<open>str.isspace\<close> on one character, for code points below 256.\<close>

definition is_space :: "char \<Rightarrow> bool" where
  "is_space c \<longleftrightarrow> c \<in> set [CHR 0x09, CHR 0x0A, CHR 0x0B, CHR 0x0C, CHR 0x0D,
     CHR 0x1C, CHR 0x1D, CHR 0x1E, CHR 0x1F, CHR 0x20, CHR 0x85, CHR 0xA0]"

text \<open>\<open>s.strip()\<close>\<close>

definition strip :: "string \<Rightarrow> string" where
  "strip s = rev (dropWhile is_space (rev (dropWhile is_space s)))"

text \<open>The line boundaries of \<open>str.splitlines\<close> below 256; \<open>\r\n\<close> counts as one.\<close>

definition is_linebreak :: "char \<Rightarrow> bool" where
  "is_linebreak c \<longleftrightarrow> c \<in> set [CHR 0x0A, CHR 0x0B, CHR 0x0C, CHR 0x0D,
     CHR 0x1C, CHR 0x1D, CHR 0x1E, CHR 0x85]"

fun splitlines_acc :: "string \<Rightarrow> string \<Rightarrow> string list" where
  "splitlines_acc cur [] = (if cur = [] then [] else [rev cur])"
| "splitlines_acc cur (c # cs) =
     (if c = CHR 0x0D then
        (case cs of
           d # ds \<Rightarrow> if d = CHR 0x0A then rev cur # splitlines_acc [] ds
                     else rev cur # splitlines_acc [] cs
         | [] \<Rightarrow> rev cur # splitlines_acc [] cs)
      else if is_linebreak c then rev cur # splitlines_acc [] cs
      else splitlines_acc (c # cur) cs)"

definition splitlines :: "string \<Rightarrow> string list" where
  "splitlines s = splitlines_acc [] s"

text \<open>\<open>s.split(sep)\<close> for a separator of one character: never an empty list.\<close>

fun split_acc :: "char \<Rightarrow> string \<Rightarrow> string \<Rightarrow> string list" where
  "split_acc sep cur [] = [rev cur]"
| "split_acc sep cur (c # cs) =
     (if c = sep then rev cur # split_acc sep [] cs else split_acc sep (c # cur) cs)"

definition split_on :: "char \<Rightarrow> string \<Rightarrow> string list" where
  "split_on sep s = split_acc sep [] s"

text \<open>\<open>s.split()\<close>: the maximal runs of characters that are not whitespace.\<close>

fun split_ws_acc :: "string \<Rightarrow> string \<Rightarrow> string list" where
  "split_ws_acc cur [] = (if cur = [] then [] else [rev cur])"
| "split_ws_acc cur (c # cs) =
     (if is_space c then (if cur = [] then split_ws_acc [] cs else rev cur # split_ws_acc [] cs)
      else split_ws_acc (c # cur) cs)"

definition split_ws :: "string \<Rightarrow> string list" where
  "split_ws s = split_ws_acc [] s"

text \<open>
  \<open>s.split(sep, 1)\<close> together with the test \<open>sep in s\<close>, for a non-empty separator:
  \<open>None\<close> when \<open>sep\<close> does not occur, otherwise the text before and after its first
  occurrence.
\<close>

definition startswith :: "string \<Rightarrow> string \<Rightarrow> bool" where
  "startswith s p \<longleftrightarrow> take (length p) s = p"

fun split_once :: "string \<Rightarrow> string \<Rightarrow> (string \<times> string) option" where
  "split_once sep [] = None"
| "split_once sep (c # cs) =
     (if startswith (c # cs) sep then Some ([], drop (length sep) (c # cs))
      else (case split_once sep cs of
              None \<Rightarrow> None
            | Some (l, r) \<Rightarrow> Some (c # l, r)))"

text \<open>\<open>s.rsplit(c, 1)\<close> together with \<open>c in s\<close>: the split at the last occurrence.\<close>

definition rsplit_once :: "char \<Rightarrow> string \<Rightarrow> (string \<times> string) option" where
  "rsplit_once c s =
     (case split_once [c] (rev s) of
        None \<Rightarrow> None
      | Some (a, b) \<Rightarrow> Some (rev b, rev a))"

text \<open>\<open>s.lower()\<close> for code points below 256.\<close>

definition lower_char :: "char \<Rightarrow> char" where
  "lower_char c =
     (let n = (of_char c :: nat)
      in if (65 \<le> n \<and> n \<le> 90) \<or> (192 \<le> n \<and> n \<le> 222 \<and> n \<noteq> 215)
         then char_of (n + 32) else c)"

definition lower :: "string \<Rightarrow> string" where
  "lower s = map lower_char s"

text \<open>
  \<open>int(s)\<close> in base ten: surrounding whitespace is dropped, one sign is allowed, single
  underscores may separate digits. \<open>None\<close> stands for \<open>ValueError\<close>. The interpreter's
  limit on the number of digits is not part of the model.
\<close>

definition is_digit :: "char \<Rightarrow> bool" where
  "is_digit c \<longleftrightarrow> 48 \<le> (of_char c :: nat) \<and> (of_char c :: nat) \<le> 57"

fun digits_ok :: "bool \<Rightarrow> string \<Rightarrow> bool" where
  "digits_ok prev [] = prev"
| "digits_ok prev (c # cs) =
     (if is_digit c then digits_ok True cs
      else if c = CHR ''_'' \<and> prev then digits_ok False cs
      else False)"

definition digits_val :: "string \<Rightarrow> int" where
  "digits_val s =
     foldl (\<lambda>acc c. if c = CHR ''_'' then acc else 10 * acc + (int (of_char c) - 48)) 0 s"

definition py_int :: "string \<Rightarrow> int option" where
  "py_int s =
     (case strip s of
        [] \<Rightarrow> None
      | c # cs \<Rightarrow>
          if c = CHR ''-'' then (if digits_ok False cs then Some (- digits_val cs) else None)
          else if c = CHR ''+'' then (if digits_ok False cs then Some (digits_val cs) else None)
          else if digits_ok False (c # cs) then Some (digits_val (c # cs))
          else None)"

text \<open>\<open>" ".join(xs)\<close>\<close>

fun join_space :: "string list \<Rightarrow> string" where
  "join_space [] = []"
| "join_space [x] = x"
| "join_space (x # y # ys) = x @ '' '' @ join_space (y # ys)"


section \<open>Container port-mapping collector: \<open>collect_docker_port_mappings\<close>\<close>

type_synonym port_key = "string \<times> string \<times> int"

text \<open>A Python \<open>dict\<close> with string keys, in insertion order. It is truthy when not empty.\<close>

type_synonym pydict = "(string \<times> pyval) list"

definition dict_get :: "pydict \<Rightarrow> string \<Rightarrow> pyval" where
  "dict_get d k = (case map_of d k of None \<Rightarrow> PyNone | Some v \<Rightarrow> v)"

type_synonym docker_map = "port_key \<rightharpoonup> pydict"

record docker_meta =
  available :: bool
  error :: "string option"
  containers_total :: nat
  containers_with_published_ports :: nat
  command :: string

definition docker_command :: string where
  "docker_command =
     ''docker ps --format '' @ [CHR 0x27] @
     ''{{.Names}}'' @ [CHR 0x5C] @ ''t{{.ID}}'' @ [CHR 0x5C] @ ''t{{.Image}}'' @ [CHR 0x5C] @
     ''t{{.Ports}}'' @ [CHR 0x27]"

definition initial_meta :: docker_meta where
  "initial_meta =
     \<lparr>available = False, error = None, containers_total = 0,
      containers_with_published_ports = 0, command = docker_command\<rparr>"

text \<open>
  The body of the loop over the entries of one ports field. \<open>None\<close> is \<open>continue\<close>;
  otherwise the key and the value stored in \<open>mapping\<close>.
\<close>

definition strip_brackets :: "string \<Rightarrow> string" where
  "strip_brackets host_ip =
     (if startswith host_ip ''['' \<and> host_ip \<noteq> [] \<and> last host_ip = CHR '']''
      then butlast (tl host_ip) else host_ip)"

definition parse_entry ::
  "string \<Rightarrow> string \<Rightarrow> string \<Rightarrow> string \<Rightarrow> (port_key \<times> pydict) option" where
  "parse_entry name cid img entry =
     (case split_once ''->'' entry of
        None \<Rightarrow> None
      | Some (l, r) \<Rightarrow>
          let left = strip l;
              right = strip r;
              (container_port_str, proto0) =
                (case split_once ''/'' right of
                   Some (a, b) \<Rightarrow> (a, b)
                 | None \<Rightarrow> (right, []));
              proto = (let p = strip (lower proto0) in if p = [] then ''tcp'' else p)
          in (case rsplit_once (CHR '':'') left of
                None \<Rightarrow> None
              | Some (host_ip_raw, host_port_str) \<Rightarrow>
                  let host_ip = strip_brackets (strip host_ip_raw)
                  in (case py_int host_port_str of
                        None \<Rightarrow> None
                      | Some host_port \<Rightarrow>
                          let container_port =
                                (case py_int container_port_str of
                                   Some n \<Rightarrow> PyInt n
                                 | None \<Rightarrow> PyStr container_port_str)
                          in Some ((proto, host_ip, host_port),
                                   [(''container_name'', PyStr name),
                                    (''container_id'', PyStr cid),
                                    (''image'', PyStr img),
                                    (''port_spec'', PyStr entry),
                                    (''container_port'', container_port)]))))"

text \<open>The loop over the entries: the state is \<open>mapping\<close> and \<open>has_published\<close>.\<close>

fun entries_loop ::
  "string \<Rightarrow> string \<Rightarrow> string \<Rightarrow> string list \<Rightarrow> docker_map \<times> bool \<Rightarrow> docker_map \<times> bool" where
  "entries_loop name cid img [] st = st"
| "entries_loop name cid img (entry # es) (mapping, has_published) =
     (case parse_entry name cid img entry of
        None \<Rightarrow> entries_loop name cid img es (mapping, has_published)
      | Some (key, info) \<Rightarrow> entries_loop name cid img es (mapping(key \<mapsto> info), True))"

text \<open>\<open>[e.strip() for e in ports_str.split(",") if e.strip()]\<close>\<close>

definition port_entries :: "string \<Rightarrow> string list" where
  "port_entries ports_str = map strip (filter (\<lambda>e. strip e \<noteq> []) (split_on (CHR '','') ports_str))"

record collector_state =
  cs_mapping :: docker_map
  cs_total :: nat
  cs_published :: "string set"

text \<open>The body of the loop over the lines.\<close>

definition process_line :: "string \<Rightarrow> collector_state \<Rightarrow> collector_state" where
  "process_line line st =
     (if strip line = [] then st
      else
        (case map strip (split_on (CHR 0x09) line) of
           name # cid # img # ports_str # rest \<Rightarrow>
             let st1 = st\<lparr>cs_total := cs_total st + 1\<rparr>
             in if ports_str = [] then st1
                else
                  (case entries_loop name cid img (port_entries ports_str)
                          (cs_mapping st1, False) of
                     (mapping, has_published) \<Rightarrow>
                       if has_published
                       then st1\<lparr>cs_mapping := mapping,
                                 cs_published := insert name (cs_published st1)\<rparr>
                       else st1\<lparr>cs_mapping := mapping\<rparr>)
         | _ \<Rightarrow> st))"

fun lines_loop :: "string list \<Rightarrow> collector_state \<Rightarrow> collector_state" where
  "lines_loop [] st = st"
| "lines_loop (line # ls) st = lines_loop ls (process_line line st)"

text \<open>
  The argument is what \<open>subprocess.run\<close> does: it raises, or it returns the standard
  output of the command. Only the two exceptions named in the source are handled.
\<close>

definition collect_docker_port_mappings ::
  "py_exc + string \<Rightarrow> py_exc + (docker_map \<times> docker_meta)" where
  "collect_docker_port_mappings run =
     (case run of
        Inl FileNotFoundError \<Rightarrow>
          Inr (Map.empty, initial_meta\<lparr>error := Some ''docker binary not found''\<rparr>)
      | Inl (CalledProcessError e) \<Rightarrow>
          Inr (Map.empty, initial_meta\<lparr>error := Some (''docker ps failed: '' @ e)\<rparr>)
      | Inl exc \<Rightarrow> Inl exc
      | Inr stdout \<Rightarrow>
          let output = strip stdout
          in if output = [] then Inr (Map.empty, initial_meta\<lparr>available := True\<rparr>)
             else
               let lines = splitlines output
               in if lines = [] then Inr (Map.empty, initial_meta\<lparr>available := True\<rparr>)
                  else
                    let st = lines_loop lines
                               \<lparr>cs_mapping = Map.empty, cs_total = 0, cs_published = {}\<rparr>
                    in Inr (cs_mapping st,
                            initial_meta\<lparr>available := True,
                              containers_total := cs_total st,
                              containers_with_published_ports := card (cs_published st)\<rparr>))"


section \<open>Port-usage correlator: \<open>collect_port_usage\<close>\<close>

datatype sock_type = SOCK_STREAM | SOCK_DGRAM | SOCK_OTHER

text \<open>
  One entry of \<open>psutil.net_connections\<close>. \<open>laddr_ip\<close> and \<open>laddr_port\<close> are what
  \<open>getattr(laddr, "ip", None)\<close> and \<open>getattr(laddr, "port", None)\<close> give.
\<close>

record sconn =
  conn_status :: string
  laddr_ip :: "string option"
  laddr_port :: "int option"
  conn_type :: sock_type
  conn_pid :: "int option"

definition CONN_LISTEN :: string where
  "CONN_LISTEN = ''LISTEN''"

text \<open>
  A record of the \<open>ports\<close> list. The eight keys every record has are fields with the
  value; for the five \<open>docker_*\<close> keys \<open>None\<close> says that the key is absent from the
  dictionary and \<open>Some v\<close> that it is present with value \<open>v\<close>.
\<close>

record port_record =
  proto :: string
  ip :: string
  port :: int
  status :: string
  pid :: "int option"
  user :: "string option"
  process :: "string option"
  cmdline :: "string option"
  docker_container_name :: "pyval option"
  docker_container_id :: "pyval option"
  docker_image :: "pyval option"
  docker_port_spec :: "pyval option"
  docker_container_port :: "pyval option"

text \<open>What the script reads from and does to its surroundings.\<close>

datatype file_read = NoFile | ReadFails | FileText string

record env =
  docker_ps :: "py_exc + string"
  net_connections :: "py_exc + sconn list"
  Process :: "int \<Rightarrow> py_exc + unit"
  proc_name :: "int \<Rightarrow> py_exc + string"
  proc_cmdline :: "int \<Rightarrow> py_exc + string list"
  proc_username :: "int \<Rightarrow> py_exc + string"
  gethostname :: string
  utc_now_iso :: string
  ip_local_port_range_file :: file_read
  connect_ex :: "string \<Rightarrow> int \<Rightarrow> py_exc + int"
  write_text :: "string \<Rightarrow> py_exc + unit"
  script_dir :: string
  script_stem :: string

text \<open>
  The \<open>try\<close> block of the process attribution. The three values are
  \<open>process_name\<close>, \<open>cmdline\<close> and \<open>username\<close> after the block; an exception outside
  the three classes of the \<open>except\<close> clause leaves the function.
\<close>

definition caught_by_attribution :: "py_exc \<Rightarrow> bool" where
  "caught_by_attribution e \<longleftrightarrow> e = NoSuchProcess \<or> e = AccessDenied \<or> e = ZombieProcess"

definition attribution_except ::
  "py_exc \<Rightarrow> string option \<times> string option \<times> string option \<Rightarrow>
   py_exc + (string option \<times> string option \<times> string option)" where
  "attribution_except e vars = (if caught_by_attribution e then Inr vars else Inl e)"

definition attribute_process ::
  "env \<Rightarrow> int \<Rightarrow> py_exc + (string option \<times> string option \<times> string option)" where
  "attribute_process E p =
     (case Process E p of
        Inl e \<Rightarrow> attribution_except e (None, None, None)
      | Inr _ \<Rightarrow>
          (case proc_name E p of
             Inl e \<Rightarrow> attribution_except e (None, None, None)
           | Inr process_name \<Rightarrow>
               (case proc_cmdline E p of
                  Inl e \<Rightarrow> attribution_except e (Some process_name, None, None)
                | Inr cl \<Rightarrow>
                    (case proc_username E p of
                       Inl e \<Rightarrow>
                         attribution_except e (Some process_name, Some (join_space cl), None)
                     | Inr username \<Rightarrow>
                         Inr (Some process_name, Some (join_space cl), Some username)))))"

text \<open>
  The body of the loop over the connections: \<open>Inr None\<close> is \<open>continue\<close>, \<open>Inr (Some r)\<close>
  is \<open>records.append(r)\<close>, \<open>Inl e\<close> an exception that leaves the function.
\<close>

definition proto_of :: "sock_type \<Rightarrow> string" where
  "proto_of t = (case t of SOCK_STREAM \<Rightarrow> ''tcp'' | SOCK_DGRAM \<Rightarrow> ''udp'' | SOCK_OTHER \<Rightarrow> ''other'')"

definition conn_record :: "env \<Rightarrow> docker_map \<Rightarrow> sconn \<Rightarrow> py_exc + port_record option" where
  "conn_record E dm conn =
     (if conn_status conn \<noteq> CONN_LISTEN then Inr None
      else
        (case (laddr_ip conn, laddr_port conn) of
           (Some i, Some n) \<Rightarrow>
             (case (case conn_pid conn of
                      None \<Rightarrow> Inr (None, None, None)
                    | Some p \<Rightarrow> if p = 0 then Inr (None, None, None)
                                else attribute_process E p) of
                Inl e \<Rightarrow> Inl e
              | Inr (process_name, cmdl, username) \<Rightarrow>
                  let r = \<lparr>proto = proto_of (conn_type conn), ip = i, port = n,
                           status = conn_status conn, pid = conn_pid conn,
                           user = username, process = process_name, cmdline = cmdl,
                           docker_container_name = None, docker_container_id = None,
                           docker_image = None, docker_port_spec = None,
                           docker_container_port = None\<rparr>
                  in (case dm (proto_of (conn_type conn), i, n) of
                        None \<Rightarrow> Inr (Some r)
                      | Some docker_info \<Rightarrow>
                          if docker_info = [] then Inr (Some r)
                          else Inr (Some (r\<lparr>
                            docker_container_name := Some (dict_get docker_info ''container_name''),
                            docker_container_id := Some (dict_get docker_info ''container_id''),
                            docker_image := Some (dict_get docker_info ''image''),
                            docker_port_spec := Some (dict_get docker_info ''port_spec''),
                            docker_container_port :=
                              Some (dict_get docker_info ''container_port'')\<rparr>))))
         | _ \<Rightarrow> Inr None))"

fun conn_loop ::
  "env \<Rightarrow> docker_map \<Rightarrow> sconn list \<Rightarrow> port_record list \<Rightarrow> py_exc + port_record list" where
  "conn_loop E dm [] records = Inr records"
| "conn_loop E dm (conn # conns) records =
     (case conn_record E dm conn of
        Inl e \<Rightarrow> Inl e
      | Inr None \<Rightarrow> conn_loop E dm conns records
      | Inr (Some r) \<Rightarrow> conn_loop E dm conns (records @ [r]))"

text \<open>
  \<open>records.sort(key=...)\<close> is a stable sort on the key \<open>(proto, port, ip)\<close>, tuples
  compared lexicographically: \<^const>\<open>sort_key\<close> is the stable sort of the library.
\<close>

definition record_key :: "port_record \<Rightarrow> string \<times> int \<times> string" where
  "record_key r = (proto r, port r, ip r)"

text \<open>\<open>docker_map or {}\<close>, for the parameter that may be \<open>None\<close>.\<close>

definition docker_map_or_empty :: "docker_map option \<Rightarrow> docker_map" where
  "docker_map_or_empty docker_map = (case docker_map of None \<Rightarrow> Map.empty | Some m \<Rightarrow> m)"

definition collect_port_usage :: "env \<Rightarrow> docker_map option \<Rightarrow> py_exc + port_record list" where
  "collect_port_usage E docker_map =
     (let dm = docker_map_or_empty docker_map
      in (case net_connections E of
            Inl e \<Rightarrow> Inl e
          | Inr connections \<Rightarrow>
              (case conn_loop E dm connections [] of
                 Inl e \<Rightarrow> Inl e
               | Inr records \<Rightarrow> Inr (sort_key record_key records))))"


section \<open>Report builder, emitters, port checker and entry point\<close>

text \<open>\<open>get_ip_local_port_range\<close>: every failure is \<open>None\<close>.\<close>

definition get_ip_local_port_range :: "env \<Rightarrow> (int \<times> int) option" where
  "get_ip_local_port_range E =
     (case ip_local_port_range_file E of
        NoFile \<Rightarrow> None
      | ReadFails \<Rightarrow> None
      | FileText text \<Rightarrow>
          (case split_ws (strip text) of
             [low_str, high_str] \<Rightarrow>
               (case py_int low_str of
                  None \<Rightarrow> None
                | Some low \<Rightarrow>
                    (case py_int high_str of None \<Rightarrow> None | Some high \<Rightarrow> Some (low, high)))
           | _ \<Rightarrow> None))"

record report =
  schema_version :: string
  script_version :: string
  host :: string
  generated_at :: string
  ip_local_port_range :: "(int \<times> int) option"
  docker :: docker_meta
  ports :: "port_record list"

definition build_report :: "env \<Rightarrow> py_exc + report" where
  "build_report E =
     (let hostname = gethostname E;
          now = utc_now_iso E
      in (case collect_docker_port_mappings (docker_ps E) of
            Inl e \<Rightarrow> Inl e
          | Inr (docker_map, docker_meta) \<Rightarrow>
              (case collect_port_usage E (Some docker_map) of
                 Inl e \<Rightarrow> Inl e
               | Inr records \<Rightarrow>
                   Inr \<lparr>schema_version = ''1.1.0'', script_version = ''1.1.0'',
                        host = hostname, generated_at = now,
                        ip_local_port_range = get_ip_local_port_range E,
                        docker = docker_meta, ports = records\<rparr>)))"

text \<open>
  What the entry point does to the outside, in order. A file write is logged with the
  report value it serialises; the messages of \<open>print\<close> are kept by kind and arguments.
\<close>

datatype message =
    JsonWritten string
  | HtmlWritten string
  | PortFree int string
  | PortBusy int string

datatype effect =
    WriteJson string report
  | WriteHtml string report
  | Print message
  | Connect string int real

text \<open>
  \<open>check_port_free\<close>: one call of \<open>connect_ex\<close> on a socket with the timeout set.
  \<open>except OSError\<close> also catches the subclasses of \<open>OSError\<close>.
\<close>

definition is_OSError :: "py_exc \<Rightarrow> bool" where
  "is_OSError e \<longleftrightarrow> e = OSError \<or> e = FileNotFoundError"

definition check_port_free :: "env \<Rightarrow> string \<Rightarrow> int \<Rightarrow> real \<Rightarrow> effect list \<times> (py_exc + bool)" where
  "check_port_free E h n timeout =
     ([Connect h n timeout],
      (case connect_ex E h n of
         Inl e \<Rightarrow> if is_OSError e then Inr False else Inl e
       | Inr result \<Rightarrow> Inr (result \<noteq> 0)))"

definition default_timeout :: real where
  "default_timeout = 0.5"

record args =
  arg_host :: string
  arg_check_port :: "int option"
  arg_json_path :: "string option"
  arg_html :: bool

definition json_path_of :: "env \<Rightarrow> args \<Rightarrow> string" where
  "json_path_of E a =
     (case arg_json_path a of
        Some p \<Rightarrow> if p \<noteq> [] then p else script_dir E @ ''/'' @ script_stem E @ ''.json''
      | None \<Rightarrow> script_dir E @ ''/'' @ script_stem E @ ''.json'')"

definition html_path_of :: "env \<Rightarrow> string" where
  "html_path_of E = script_dir E @ ''/'' @ script_stem E @ ''.html''"

text \<open>\<open>main\<close>: the effects it had, and the value it returned or the exception it raised.\<close>

definition main_check :: "env \<Rightarrow> args \<Rightarrow> effect list \<times> (py_exc + int)" where
  "main_check E a =
     (case arg_check_port a of
        None \<Rightarrow> ([], Inr 0)
      | Some n \<Rightarrow>
          (case check_port_free E (arg_host a) n default_timeout of
             (effs, Inl e) \<Rightarrow> (effs, Inl e)
           | (effs, Inr is_free) \<Rightarrow>
               if is_free then (effs @ [Print (PortFree n (arg_host a))], Inr 0)
               else (effs @ [Print (PortBusy n (arg_host a))], Inr 1)))"

definition main_html :: "env \<Rightarrow> args \<Rightarrow> report \<Rightarrow> effect list \<times> (py_exc + unit)" where
  "main_html E a rep =
     (if arg_html a then
        (case write_text E (html_path_of E) of
           Inl e \<Rightarrow> ([], Inl e)
         | Inr _ \<Rightarrow> ([WriteHtml (html_path_of E) rep, Print (HtmlWritten (html_path_of E))], Inr ()))
      else ([], Inr ()))"

text \<open>The part of \<open>main\<close> before the optional port check: build, write the report, write the page.\<close>

definition main_report :: "env \<Rightarrow> args \<Rightarrow> effect list \<times> (py_exc + unit)" where
  "main_report E a =
     (case build_report E of
        Inl e \<Rightarrow> ([], Inl e)
      | Inr rep \<Rightarrow>
          (case write_text E (json_path_of E a) of
             Inl e \<Rightarrow> ([], Inl e)
           | Inr _ \<Rightarrow>
               (case main_html E a rep of
                  (effs2, res) \<Rightarrow>
                    ([WriteJson (json_path_of E a) rep, Print (JsonWritten (json_path_of E a))]
                       @ effs2, res))))"

definition main :: "env \<Rightarrow> args \<Rightarrow> effect list \<times> (py_exc + int)" where
  "main E a =
     (case main_report E a of
        (effs1, Inl e) \<Rightarrow> (effs1, Inl e)
      | (effs1, Inr _) \<Rightarrow>
          (case main_check E a of
             (effs2, res) \<Rightarrow> (effs1 @ effs2, res)))"

text \<open>
  The exit code of the process from \<open>raise SystemExit(main())\<close>: the returned value, and
  1 after an exception that nothing caught.
\<close>

definition exit_code :: "py_exc + int \<Rightarrow> int" where
  "exit_code res = (case res of Inl e \<Rightarrow> 1 | Inr n \<Rightarrow> n)"


section \<open>Notions used in the statements\<close>

text \<open>A socket entry that the correlator keeps: listening, with an address and a port.\<close>

definition listening_with_address :: "sconn \<Rightarrow> bool" where
  "listening_with_address c \<longleftrightarrow>
     conn_status c = CONN_LISTEN \<and> laddr_ip c \<noteq> None \<and> laddr_port c \<noteq> None"

text \<open>All five container keys are in the record; none of them is.\<close>

definition has_docker_fields :: "port_record \<Rightarrow> bool" where
  "has_docker_fields r \<longleftrightarrow>
     docker_container_name r \<noteq> None \<and> docker_container_id r \<noteq> None \<and>
     docker_image r \<noteq> None \<and> docker_port_spec r \<noteq> None \<and> docker_container_port r \<noteq> None"

definition no_docker_fields :: "port_record \<Rightarrow> bool" where
  "no_docker_fields r \<longleftrightarrow>
     docker_container_name r = None \<and> docker_container_id r = None \<and>
     docker_image r = None \<and> docker_port_spec r = None \<and> docker_container_port r = None"

text \<open>The records one connection adds to \<open>records\<close>.\<close>

definition appended :: "env \<Rightarrow> docker_map \<Rightarrow> sconn \<Rightarrow> port_record list" where
  "appended E dm c = (case conn_record E dm c of Inr (Some r) \<Rightarrow> [r] | _ \<Rightarrow> [])"

text \<open>The order between a record and a later one, in the words of the specification.\<close>

definition three_key_order :: "port_record \<Rightarrow> port_record \<Rightarrow> bool" where
  "three_key_order A B \<longleftrightarrow>
     proto A < proto B \<or>
     (proto A = proto B \<and> port A < port B) \<or>
     (proto A = proto B \<and> port A = port B \<and> ip A \<le> ip B)"


definition is_json_write :: "effect \<Rightarrow> bool" where
  "is_json_write x = (case x of WriteJson p r \<Rightarrow> True | _ \<Rightarrow> False)"

definition is_file_write :: "effect \<Rightarrow> bool" where
  "is_file_write x = (case x of WriteJson p r \<Rightarrow> True | WriteHtml p r \<Rightarrow> True | _ \<Rightarrow> False)"

definition is_check_effect :: "effect \<Rightarrow> bool" where
  "is_check_effect x =
     (case x of
        Connect h n t \<Rightarrow> True
      | Print m \<Rightarrow> (case m of PortFree n h \<Rightarrow> True | PortBusy n h \<Rightarrow> True | _ \<Rightarrow> False)
      | _ \<Rightarrow> False)"

subsection \<open>A small host, for concrete runs\<close>

definition demo_conns :: "sconn list" where
  "demo_conns =
     [\<lparr>conn_status = ''LISTEN'', laddr_ip = Some ''0.0.0.0'', laddr_port = Some 9090,
        conn_type = SOCK_STREAM, conn_pid = Some 12\<rparr>,
      \<lparr>conn_status = ''ESTABLISHED'', laddr_ip = Some ''10.0.0.5'', laddr_port = Some 22,
        conn_type = SOCK_STREAM, conn_pid = Some 40\<rparr>,
      \<lparr>conn_status = ''NONE'', laddr_ip = Some ''0.0.0.0'', laddr_port = Some 68,
        conn_type = SOCK_DGRAM, conn_pid = None\<rparr>,
      \<lparr>conn_status = ''LISTEN'', laddr_ip = None, laddr_port = None,
        conn_type = SOCK_STREAM, conn_pid = None\<rparr>,
      \<lparr>conn_status = ''LISTEN'', laddr_ip = Some ''0.0.0.0'', laddr_port = Some 8080,
        conn_type = SOCK_STREAM, conn_pid = Some 7\<rparr>]"

definition demo_stdout :: string where
  "demo_stdout =
     ''web'' @ [CHR 0x09] @ ''abc123'' @ [CHR 0x09] @ ''nginx:latest'' @ [CHR 0x09] @
     ''0.0.0.0:8080->80/tcp, [::]:8080->80/tcp'' @ [CHR 0x0A]"

definition demo_env :: env where
  "demo_env =
     \<lparr>docker_ps = Inr demo_stdout,
      net_connections = Inr demo_conns,
      Process = (\<lambda>p. if p = 12 then Inl NoSuchProcess else Inr ()),
      proc_name = (\<lambda>p. Inr ''nginx''),
      proc_cmdline = (\<lambda>p. if p = 7 then Inl AccessDenied else Inr [''nginx'', ''-g'']),
      proc_username = (\<lambda>p. Inr ''root''),
      gethostname = ''lab'',
      utc_now_iso = ''2025-01-01T00:00:00+00:00'',
      ip_local_port_range_file = NoFile,
      connect_ex = (\<lambda>h n. if n = 8080 then Inr 0 else if n = 1 then Inl OSError else Inr 111),
      write_text = (\<lambda>p. Inr ()),
      script_dir = ''/opt/docs'',
      script_stem = ''port_usage_report''\<rparr>"

definition demo_args :: args where
  "demo_args =
     \<lparr>arg_host = ''127.0.0.1'', arg_check_port = Some 9999, arg_json_path = None,
      arg_html = False\<rparr>"

definition demo_map :: docker_map where
  "demo_map = Map.empty((''tcp'', ''0.0.0.0'', 8080) \<mapsto> [(''container_name'', PyStr ''nginx'')])"

definition empty_info_map :: docker_map where
  "empty_info_map = Map.empty((''tcp'', ''0.0.0.0'', 8080) \<mapsto> [])"

definition demo_record_9090 :: port_record where
  "demo_record_9090 =
     \<lparr>proto = ''tcp'', ip = ''0.0.0.0'', port = 9090, status = ''LISTEN'', pid = Some 12,
      user = None, process = None, cmdline = None,
      docker_container_name = None, docker_container_id = None,
      docker_image = None, docker_port_spec = None, docker_container_port = None\<rparr>"

definition bare_record_8080 :: port_record where
  "bare_record_8080 =
     \<lparr>proto = ''tcp'', ip = ''0.0.0.0'', port = 8080, status = ''LISTEN'', pid = Some 7,
      user = None, process = Some ''nginx'', cmdline = None,
      docker_container_name = None, docker_container_id = None,
      docker_image = None, docker_port_spec = None, docker_container_port = None\<rparr>"

definition demo_record_8080 :: port_record where
  "demo_record_8080 =
     bare_record_8080\<lparr>
       docker_container_name := Some (PyStr ''nginx''), docker_container_id := Some PyNone,
       docker_image := Some PyNone, docker_port_spec := Some PyNone,
       docker_container_port := Some PyNone\<rparr>"

definition web_record_8080 :: port_record where
  "web_record_8080 =
     bare_record_8080\<lparr>
       docker_container_name := Some (PyStr ''web''),
       docker_container_id := Some (PyStr ''abc123''),
       docker_image := Some (PyStr ''nginx:latest''),
       docker_port_spec := Some (PyStr ''0.0.0.0:8080->80/tcp''),
       docker_container_port := Some (PyInt 80)\<rparr>"

definition demo_report :: report where
  "demo_report =
     \<lparr>schema_version = ''1.1.0'', script_version = ''1.1.0'', host = ''lab'',
      generated_at = ''2025-01-01T00:00:00+00:00'', ip_local_port_range = None,
      docker = initial_meta\<lparr>available := True, containers_total := 1,
                 containers_with_published_ports := 1\<rparr>,
      ports = [web_record_8080, demo_record_9090]\<rparr>"

text \<open>
  Every exception that the lookups for process id \<open>p\<close> raise is one of the three classes
  of the \<open>except\<close> clause: the process has exited, access is denied, or it is a zombie.
\<close>

definition caught_failures_at :: "env \<Rightarrow> int \<Rightarrow> bool" where
  "caught_failures_at E p \<longleftrightarrow>
     (\<forall>e. Process E p = Inl e \<or> proc_name E p = Inl e \<or> proc_cmdline E p = Inl e \<or>
          proc_username E p = Inl e \<longrightarrow> caught_by_attribution e)"

subsection \<open>Two processes holding one listening socket\<close>

definition worker_conn :: "int \<Rightarrow> sconn" where
  "worker_conn p =
     \<lparr>conn_status = ''LISTEN'', laddr_ip = Some ''0.0.0.0'', laddr_port = Some 80,
      conn_type = SOCK_STREAM, conn_pid = Some p\<rparr>"

definition worker_record :: "int \<Rightarrow> port_record" where
  "worker_record p =
     \<lparr>proto = ''tcp'', ip = ''0.0.0.0'', port = 80, status = ''LISTEN'', pid = Some p,
      user = None, process = None, cmdline = None,
      docker_container_name = None, docker_container_id = None,
      docker_image = None, docker_port_spec = None, docker_container_port = None\<rparr>"

definition worker_env :: "sconn list \<Rightarrow> env" where
  "worker_env conns =
     demo_env\<lparr>net_connections := Inr conns, Process := (\<lambda>p. Inl NoSuchProcess)\<rparr>"

subsection \<open>The text of a container line with an IPv4 and an IPv6 mapping\<close>














subsection \<open>Container listings with a container that publishes nothing\<close>

text \<open>
  The number of valid lines of a listing, in the words of the specification: the lines
  that split on tab into at least the four expected fields.
\<close>

definition valid_line_count :: "string \<Rightarrow> nat" where
  "valid_line_count out =
     length (filter (\<lambda>l. 4 \<le> length (split_on (CHR 0x09) l)) (splitlines out))"

text \<open>A line that the loop of the collector counts.\<close>

definition counted_line :: "string \<Rightarrow> bool" where
  "counted_line l \<longleftrightarrow> strip l \<noteq> [] \<and> 4 \<le> length (split_on (CHR 0x09) l)"

text \<open>
  What \<open>docker ps\<close> prints for one running container without ports: the fourth field is
  empty, so the line ends with the tab.
\<close>

definition portless_line :: string where
  "portless_line = ''cache'' @ [CHR 0x09] @ ''f00d42'' @ [CHR 0x09] @ ''redis:7'' @ [CHR 0x09]"

definition portless_stdout :: string where
  "portless_stdout = portless_line @ [CHR 0x0A]"

definition portless_first_stdout :: string where
  "portless_first_stdout = portless_line @ [CHR 0x0A] @ demo_stdout"

definition portless_last_stdout :: string where
  "portless_last_stdout = demo_stdout @ portless_line @ [CHR 0x0A]"



section \<open>Properties\<close>

lemmas correlator_defs =
  collect_port_usage_def docker_map_or_empty_def conn_record_def attribute_process_def
  attribution_except_def caught_by_attribution_def proto_of_def CONN_LISTEN_def dict_get_def
  record_key_def Let_def

lemmas collector_defs =
  collect_docker_port_mappings_def strip_def is_space_def splitlines_def is_linebreak_def
  process_line_def split_on_def port_entries_def parse_entry_def startswith_def
  rsplit_once_def py_int_def is_digit_def digits_val_def lower_def lower_char_def
  strip_brackets_def initial_meta_def

lemmas demo_defs =
  demo_env_def demo_conns_def demo_stdout_def demo_args_def demo_map_def empty_info_map_def
  demo_record_9090_def bare_record_8080_def demo_record_8080_def web_record_8080_def
  demo_report_def

lemmas main_defs =
  main_def main_report_def main_html_def main_check_def check_port_free_def json_path_of_def
  html_path_of_def default_timeout_def exit_code_def is_OSError_def


subsection \<open>Concrete runs on the small host\<close>

lemma demo_env_sel:
  "docker_ps demo_env = Inr demo_stdout"
  "net_connections demo_env = Inr demo_conns"
  "write_text demo_env p = Inr ()"
  "script_dir demo_env = ''/opt/docs''"
  "script_stem demo_env = ''port_usage_report''"
  "connect_ex demo_env h n = (if n = 8080 then Inr 0 else if n = 1 then Inl OSError else Inr 111)"
  by (simp_all add: demo_env_def)


lemma demo_usage_without_map:
  "collect_port_usage demo_env None = Inr [bare_record_8080, demo_record_9090]"
  by (simp add: correlator_defs demo_defs)

lemma demo_build_report: "build_report demo_env = Inr demo_report"
  by (simp add: build_report_def get_ip_local_port_range_def correlator_defs collector_defs
      demo_defs)

lemma demo_main:
  "main demo_env demo_args =
     ([WriteJson ''/opt/docs/port_usage_report.json'' demo_report,
       Print (JsonWritten ''/opt/docs/port_usage_report.json''),
       Connect ''127.0.0.1'' 9999 0.5,
       Print (PortFree 9999 ''127.0.0.1'')], Inr 0)"
  by (simp add: demo_build_report main_defs demo_env_sel demo_args_def)

subsection \<open>The loop over the connections\<close>

lemma conn_record_None: "conn_record E dm c = Inr None \<longleftrightarrow> \<not> listening_with_address c"
  by (auto simp: conn_record_def listening_with_address_def Let_def
      split: option.splits sum.splits prod.splits if_splits)

lemma conn_record_Some:
  assumes "conn_record E dm c = Inr (Some r)"
  shows "conn_status c = CONN_LISTEN" "laddr_ip c = Some (ip r)" "laddr_port c = Some (port r)"
    "status r = conn_status c" "proto r = proto_of (conn_type c)" "pid r = conn_pid c"
    "has_docker_fields r \<longleftrightarrow> (\<exists>info. dm (proto r, ip r, port r) = Some info \<and> info \<noteq> [])"
    "no_docker_fields r \<longleftrightarrow> \<not> (\<exists>info. dm (proto r, ip r, port r) = Some info \<and> info \<noteq> [])"
  using assms
  by (auto simp: conn_record_def Let_def has_docker_fields_def no_docker_fields_def
      split: option.splits sum.splits prod.splits if_splits)

lemma appended_cases:
  "conn_record E dm c = Inl e \<Longrightarrow> appended E dm c = []"
  "conn_record E dm c = Inr None \<Longrightarrow> appended E dm c = []"
  "conn_record E dm c = Inr (Some r) \<Longrightarrow> appended E dm c = [r]"
  by (simp_all add: appended_def)

lemma in_appended: "r \<in> set (appended E dm c) \<longleftrightarrow> conn_record E dm c = Inr (Some r)"
  by (auto simp: appended_def split: sum.splits option.splits)

lemma conn_loop_Inr:
  "conn_loop E dm conns acc = Inr out \<Longrightarrow>
     out = acc @ concat (map (appended E dm) conns) \<and>
     (\<forall>c \<in> set conns. \<exists>ro. conn_record E dm c = Inr ro)"
proof (induction conns arbitrary: acc)
  case Nil
  then show ?case by simp
next
  case (Cons c cs)
  show ?case
  proof (cases "conn_record E dm c")
    case (Inl e)
    with Cons.prems show ?thesis by simp
  next
    case (Inr ro)
    show ?thesis
    proof (cases ro)
      case None
      with Inr Cons.prems have "conn_loop E dm cs acc = Inr out" by simp
      from Cons.IH[OF this] Inr None show ?thesis by (simp add: appended_cases)
    next
      case (Some r)
      with Inr Cons.prems have "conn_loop E dm cs (acc @ [r]) = Inr out" by simp
      from Cons.IH[OF this] Inr Some show ?thesis by (simp add: appended_cases)
    qed
  qed
qed

lemma conn_loop_total:
  "(\<forall>c \<in> set conns. \<exists>ro. conn_record E dm c = Inr ro) \<Longrightarrow>
     conn_loop E dm conns acc = Inr (acc @ concat (map (appended E dm) conns))"
proof (induction conns arbitrary: acc)
  case Nil
  then show ?case by simp
next
  case (Cons c cs)
  then obtain ro where ro: "conn_record E dm c = Inr ro" by auto
  from Cons have ih: "\<And>acc. conn_loop E dm cs acc = Inr (acc @ concat (map (appended E dm) cs))"
    by simp
  show ?case
    using ro by (cases ro) (simp_all add: ih appended_cases)
qed

lemma appended_length:
  assumes "conn_record E dm c = Inr ro"
  shows "length (appended E dm c) = (if listening_with_address c then 1 else 0)"
proof (cases ro)
  case None
  with assms conn_record_None[of E dm c] show ?thesis by (simp add: appended_cases)
next
  case (Some r)
  with assms conn_record_None[of E dm c] show ?thesis by (simp add: appended_cases)
qed

lemma length_concat_appended:
  "(\<forall>c \<in> set conns. \<exists>ro. conn_record E dm c = Inr ro) \<Longrightarrow>
   length (concat (map (appended E dm) conns)) = length (filter listening_with_address conns)"
proof (induction conns)
  case Nil
  then show ?case by simp
next
  case (Cons c cs)
  then obtain ro where ro: "conn_record E dm c = Inr ro" by auto
  from Cons appended_length[OF ro] show ?case by simp
qed

lemma collect_port_usage_Inr:
  assumes "collect_port_usage E docker_map = Inr records"
  shows "\<exists>conns. net_connections E = Inr conns \<and>
     (\<forall>c \<in> set conns. \<exists>ro. conn_record E (docker_map_or_empty docker_map) c = Inr ro) \<and>
     records = sort_key record_key (concat (map (appended E (docker_map_or_empty docker_map)) conns))"
  using assms
  by (auto simp: collect_port_usage_def Let_def split: sum.splits dest!: conn_loop_Inr)

subsection \<open>Container fields of a record\<close>









subsection \<open>Only listening sockets with an address\<close>

text \<open>
  Claim C3. Every record of the output has the listening status and comes from a socket
  entry that is listening and has both a local IP and a local port. The output holds
  the records that the entries add, one for each such entry, and an entry that is not
  listening, or lacks the IP or the port, adds none.
\<close>

theorem records_are_listening_sockets:
  assumes "collect_port_usage E docker_map = Inr records" and "net_connections E = Inr conns"
  shows "(\<forall>r \<in> set records. status r = CONN_LISTEN \<and>
            (\<exists>c \<in> set conns. conn_status c = CONN_LISTEN \<and>
                laddr_ip c = Some (ip r) \<and> laddr_port c = Some (port r)))
       \<and> mset records = mset (concat (map (appended E (docker_map_or_empty docker_map)) conns))
       \<and> (\<forall>c \<in> set conns.
             length (appended E (docker_map_or_empty docker_map) c)
               = (if listening_with_address c then 1 else 0))
       \<and> length records = length (filter listening_with_address conns)"
proof -
  let ?dm = "docker_map_or_empty docker_map"
  from collect_port_usage_Inr[OF assms(1)] assms(2)
  have ok: "\<forall>c \<in> set conns. \<exists>ro. conn_record E ?dm c = Inr ro"
    and recs: "records = sort_key record_key (concat (map (appended E ?dm) conns))"
    by auto
  have "status r = CONN_LISTEN \<and>
            (\<exists>c \<in> set conns. conn_status c = CONN_LISTEN \<and>
                laddr_ip c = Some (ip r) \<and> laddr_port c = Some (port r))"
    if "r \<in> set records" for r
  proof -
    from that obtain c where c: "c \<in> set conns" "conn_record E ?dm c = Inr (Some r)"
      using recs by (auto simp: in_appended)
    from conn_record_Some[OF c(2)] c(1) show ?thesis by auto
  qed
  moreover have "mset records = mset (concat (map (appended E ?dm) conns))"
    using recs by simp
  moreover have "\<forall>c \<in> set conns.
      length (appended E ?dm c) = (if listening_with_address c then 1 else 0)"
    using ok appended_length by blast
  moreover have "length records = length (filter listening_with_address conns)"
    using recs length_concat_appended[OF ok] by simp
  ultimately show ?thesis by blast
qed

theorem records_are_listening_sockets_witness:
  "collect_port_usage demo_env None = Inr [bare_record_8080, demo_record_9090]
   \<and> net_connections demo_env = Inr demo_conns
   \<and> length demo_conns = 5
   \<and> length (filter listening_with_address demo_conns) = 2
   \<and> status bare_record_8080 = CONN_LISTEN \<and> status demo_record_9090 = CONN_LISTEN"
proof -
  have run: "collect_port_usage demo_env None = Inr [bare_record_8080, demo_record_9090]"
    by (rule demo_usage_without_map)
  have conns: "net_connections demo_env = Inr demo_conns"
    by (simp add: demo_env_sel)
  from records_are_listening_sockets[OF run conns] show ?thesis
    using run conns by (simp add: demo_conns_def)
qed

subsection \<open>The entry point\<close>

lemma main_report_effects:
  "fst (main_report E a) = [] \<or>
   (\<exists>rep effs2. build_report E = Inr rep \<and>
      fst (main_report E a) =
        [WriteJson (json_path_of E a) rep, Print (JsonWritten (json_path_of E a))] @ effs2 \<and>
      (effs2 = [] \<or> effs2 = [WriteHtml (html_path_of E) rep, Print (HtmlWritten (html_path_of E))]))"
  by (auto simp: main_report_def main_html_def split: sum.splits prod.splits if_splits)

lemma main_report_ok:
  "snd (main_report E a) = Inr u \<Longrightarrow>
   \<exists>rep effs2. build_report E = Inr rep \<and>
      fst (main_report E a) =
        [WriteJson (json_path_of E a) rep, Print (JsonWritten (json_path_of E a))] @ effs2 \<and>
      (effs2 = [] \<or> effs2 = [WriteHtml (html_path_of E) rep, Print (HtmlWritten (html_path_of E))])"
  by (auto simp: main_report_def main_html_def split: sum.splits prod.splits if_splits)

lemma main_report_flag: "main_report E (a\<lparr>arg_check_port := x\<rparr>) = main_report E a"
  by (auto simp: main_report_def main_html_def json_path_of_def split: sum.splits prod.splits)

lemma json_writes_of_main:
  "WriteJson p rep \<in> set (fst (main E a)) \<Longrightarrow> build_report E = Inr rep"
  using main_report_effects[of E a]
  by (auto simp: main_def main_check_def check_port_free_def
      split: sum.splits prod.splits option.splits if_splits)



text \<open>
  Claim C9. When the socket enumeration fails, the builder returns no report: the error
  leaves the builder (it is the enumeration's own error whenever the container collector
  returned), the entry point ends with an exception, a non-zero exit code and no effect at
  all, so no file is written. In every run, a JSON write carries the report the builder
  returned.
\<close>

theorem enumeration_failure_aborts_report:
  assumes "net_connections E = Inl e"
  shows "(\<exists>e'. build_report E = Inl e')
     \<and> (\<forall>x. collect_docker_port_mappings (docker_ps E) = Inr x \<longrightarrow> build_report E = Inl e)
     \<and> (\<exists>e'. main E a = ([], Inl e'))
     \<and> exit_code (snd (main E a)) \<noteq> 0
     \<and> filter is_file_write (fst (main E a)) = []
     \<and> (\<forall>p rep. WriteJson p rep \<in> set (fst (main E' a')) \<longrightarrow> build_report E' = Inr rep)"
proof -
  have "(\<exists>e'. build_report E = Inl e')
     \<and> (\<forall>x. collect_docker_port_mappings (docker_ps E) = Inr x \<longrightarrow> build_report E = Inl e)
     \<and> (\<exists>e'. main E a = ([], Inl e'))
     \<and> exit_code (snd (main E a)) \<noteq> 0
     \<and> filter is_file_write (fst (main E a)) = []"
    using assms
    by (auto simp: build_report_def collect_port_usage_def main_def main_report_def exit_code_def
        split: sum.splits prod.splits)
  moreover have "\<forall>p rep. WriteJson p rep \<in> set (fst (main E' a')) \<longrightarrow> build_report E' = Inr rep"
    using json_writes_of_main by blast
  ultimately show ?thesis by blast
qed

theorem enumeration_failure_aborts_report_witness:
  "net_connections (demo_env\<lparr>net_connections := Inl AccessDenied\<rparr>) = Inl AccessDenied
   \<and> build_report (demo_env\<lparr>net_connections := Inl AccessDenied\<rparr>) = Inl AccessDenied
   \<and> main (demo_env\<lparr>net_connections := Inl AccessDenied\<rparr>) demo_args = ([], Inl AccessDenied)
   \<and> exit_code (snd (main (demo_env\<lparr>net_connections := Inl AccessDenied\<rparr>) demo_args)) = 1
   \<and> WriteJson ''/opt/docs/port_usage_report.json'' demo_report \<in> set (fst (main demo_env demo_args))
   \<and> build_report demo_env = Inr demo_report"
proof -
  let ?E = "demo_env\<lparr>net_connections := Inl AccessDenied\<rparr>"
  have fails: "net_connections ?E = Inl AccessDenied" by simp
  have dock: "\<exists>x. collect_docker_port_mappings (docker_ps ?E) = Inr x"
    by (simp add: collector_defs demo_env_def demo_stdout_def)
  have written: "WriteJson ''/opt/docs/port_usage_report.json'' demo_report
      \<in> set (fst (main demo_env demo_args))"
    by (simp add: demo_main)
  have built: "build_report ?E = Inl AccessDenied"
    by (simp add: build_report_def collect_port_usage_def collector_defs demo_env_def
        demo_stdout_def)
  have run: "main ?E demo_args = ([], Inl AccessDenied)"
    by (simp add: main_def main_report_def built)
  from enumeration_failure_aborts_report
         [OF fails, where a = demo_args and E' = demo_env and a' = demo_args]
  show ?thesis
    using fails dock written demo_build_report built run by (simp add: exit_code_def)
qed

text \<open>
  Claim C10. Compare a run with the check flag and the same run without it. The effects
  of the run with the flag are those of the run without it, followed only by effects of
  the port check (the connection attempt and the message about it); the files written are
  the same. When the check is performed, the run without the flag returned 0 after
  writing the JSON report of the builder exactly once, so the write comes before the
  check. When the run without the flag does not return 0, the flag changes nothing.
\<close>

theorem check_flag_leaves_report_unchanged:
  "\<exists>extra.
      fst (main E (a\<lparr>arg_check_port := Some n\<rparr>))
        = fst (main E (a\<lparr>arg_check_port := None\<rparr>)) @ extra
    \<and> (\<forall>x \<in> set extra. is_check_effect x)
    \<and> filter is_file_write (fst (main E (a\<lparr>arg_check_port := Some n\<rparr>)))
        = filter is_file_write (fst (main E (a\<lparr>arg_check_port := None\<rparr>)))
    \<and> (extra \<noteq> [] \<longrightarrow>
          snd (main E (a\<lparr>arg_check_port := None\<rparr>)) = Inr 0 \<and>
          (\<exists>rep. build_report E = Inr rep \<and>
             filter is_json_write (fst (main E (a\<lparr>arg_check_port := None\<rparr>)))
               = [WriteJson (json_path_of E a) rep]))
    \<and> (snd (main E (a\<lparr>arg_check_port := None\<rparr>)) \<noteq> Inr 0 \<longrightarrow>
          main E (a\<lparr>arg_check_port := Some n\<rparr>) = main E (a\<lparr>arg_check_port := None\<rparr>))"
proof (cases "snd (main_report E a)")
  case (Inl e)
  then show ?thesis
    by (auto simp: main_def main_report_flag split: prod.splits sum.splits)
next
  case (Inr u)
  from main_report_ok[OF Inr] obtain rep effs2 where
    b: "build_report E = Inr rep" and
    f: "fst (main_report E a) =
        [WriteJson (json_path_of E a) rep, Print (JsonWritten (json_path_of E a))] @ effs2" and
    e: "effs2 = [] \<or> effs2 = [WriteHtml (html_path_of E) rep, Print (HtmlWritten (html_path_of E))]"
    by blast
  obtain effs1 where mr: "main_report E a = (effs1, Inr u)"
    using Inr by (cases "main_report E a") auto
  have f1: "effs1 = [WriteJson (json_path_of E a) rep, Print (JsonWritten (json_path_of E a))] @ effs2"
    using f mr by simp
  have m0: "main E (a\<lparr>arg_check_port := None\<rparr>) = (effs1, Inr 0)"
    by (simp add: main_def main_report_flag mr main_check_def)
  obtain effs3 res where mc: "main_check E (a\<lparr>arg_check_port := Some n\<rparr>) = (effs3, res)"
    by (cases "main_check E (a\<lparr>arg_check_port := Some n\<rparr>)") auto
  have m1: "main E (a\<lparr>arg_check_port := Some n\<rparr>) = (effs1 @ effs3, res)"
    by (simp add: main_def main_report_flag mr mc)
  have c3: "\<forall>x \<in> set effs3. is_check_effect x"
    using mc
    by (auto simp: main_check_def check_port_free_def is_check_effect_def
        split: sum.splits if_splits)
  have nw: "filter is_file_write effs3 = []"
    using mc
    by (auto simp: main_check_def check_port_free_def is_file_write_def
        split: sum.splits if_splits)
  have jw: "filter is_json_write effs1 = [WriteJson (json_path_of E a) rep]"
    using f1 e by (auto simp: is_json_write_def)
  show ?thesis
    apply (rule exI[of _ effs3])
    using m0 m1 c3 nw jw b by simp
qed

theorem check_flag_leaves_report_unchanged_witness:
  "fst (main demo_env (demo_args\<lparr>arg_check_port := Some 9999\<rparr>))
     = fst (main demo_env (demo_args\<lparr>arg_check_port := None\<rparr>))
       @ [Connect ''127.0.0.1'' 9999 0.5, Print (PortFree 9999 ''127.0.0.1'')]
   \<and> is_check_effect (Connect ''127.0.0.1'' 9999 0.5)
   \<and> is_check_effect (Print (PortFree 9999 ''127.0.0.1''))
   \<and> snd (main demo_env (demo_args\<lparr>arg_check_port := None\<rparr>)) = Inr 0
   \<and> filter is_json_write (fst (main demo_env (demo_args\<lparr>arg_check_port := None\<rparr>)))
       = [WriteJson ''/opt/docs/port_usage_report.json'' demo_report]
   \<and> snd (main (demo_env\<lparr>net_connections := Inl AccessDenied\<rparr>)
             (demo_args\<lparr>arg_check_port := None\<rparr>)) \<noteq> Inr 0
   \<and> main (demo_env\<lparr>net_connections := Inl AccessDenied\<rparr>)
          (demo_args\<lparr>arg_check_port := Some 9999\<rparr>)
       = main (demo_env\<lparr>net_connections := Inl AccessDenied\<rparr>)
           (demo_args\<lparr>arg_check_port := None\<rparr>)"
proof -
  let ?F = "demo_env\<lparr>net_connections := Inl AccessDenied\<rparr>"
  have same: "demo_args\<lparr>arg_check_port := Some 9999\<rparr> = demo_args"
    by (simp add: demo_args_def)
  have without: "main demo_env (demo_args\<lparr>arg_check_port := None\<rparr>) =
     ([WriteJson ''/opt/docs/port_usage_report.json'' demo_report,
       Print (JsonWritten ''/opt/docs/port_usage_report.json'')], Inr 0)"
    by (simp add: demo_build_report main_defs demo_env_sel demo_args_def)
  have failing: "snd (main ?F (demo_args\<lparr>arg_check_port := None\<rparr>)) \<noteq> Inr 0"
    by (simp add: main_def main_report_def build_report_def collect_port_usage_def
        collector_defs demo_env_def demo_stdout_def)
  from check_flag_leaves_report_unchanged[where E = demo_env and a = demo_args and n = 9999]
       check_flag_leaves_report_unchanged[where E = ?F and a = demo_args and n = 9999]
  show ?thesis
    using same without failing demo_main
    by (simp add: is_check_effect_def is_json_write_def)
qed


subsection \<open>Process attribution\<close>

lemma attribute_process_caught:
  assumes "caught_failures_at E p"
  shows "\<exists>n c u. attribute_process E p = Inr (n, c, u) \<and>
     (isl (Process E p) \<or> isl (proc_name E p) \<longrightarrow> n = None \<and> c = None \<and> u = None) \<and>
     (isl (proc_cmdline E p) \<longrightarrow> c = None \<and> u = None) \<and>
     (isl (proc_username E p) \<longrightarrow> u = None) \<and>
     (\<forall>x. \<not> isl (Process E p) \<and> proc_name E p = Inr x \<longrightarrow> n = Some x)"
  using assms
  by (auto simp: attribute_process_def attribution_except_def caught_failures_at_def
      split: sum.splits)

lemma conn_record_caught:
  assumes "\<forall>p. conn_pid c = Some p \<longrightarrow> caught_failures_at E p"
  shows "\<exists>ro. conn_record E dm c = Inr ro"
proof (cases "conn_pid c")
  case None
  then show ?thesis
    by (auto simp: conn_record_def Let_def split: option.splits)
next
  case (Some p)
  with assms have "caught_failures_at E p" by simp
  from attribute_process_caught[OF this] obtain n cl u where
    "attribute_process E p = Inr (n, cl, u)" by blast
  with Some show ?thesis
    by (auto simp: conn_record_def Let_def split: option.splits)
qed

lemma conn_record_attribution:
  assumes "conn_record E dm c = Inr (Some r)" and "pid r = Some p" and "p \<noteq> 0"
  shows "attribute_process E p = Inr (process r, cmdline r, user r)"
  using assms
  by (auto simp: conn_record_def Let_def split: option.splits sum.splits prod.splits if_splits)

text \<open>
  Claim C7, as amended. Suppose the lookups for the process ids of the enumerated sockets
  raise nothing but the three exceptions (process exited, access denied, zombie). Then the
  correlator returns, with one record for every listening socket that has an address, so
  no failure aborts the enumeration. In a record with a process id, the fields looked up
  at or after the failing step are null: all three when creating the process handle or the
  name lookup fails, the command line and the user when the command-line lookup fails, the
  user when the user lookup fails. A name obtained before the failing step is kept.
\<close>

theorem attribution_failures_are_absorbed:
  assumes "net_connections E = Inr conns"
    and "\<forall>c \<in> set conns. \<forall>p. conn_pid c = Some p \<longrightarrow> caught_failures_at E p"
  shows "\<exists>records. collect_port_usage E docker_map = Inr records \<and>
     length records = length (filter listening_with_address conns) \<and>
     (\<forall>r \<in> set records. \<forall>p. pid r = Some p \<and> p \<noteq> 0 \<longrightarrow>
        (isl (Process E p) \<or> isl (proc_name E p)
           \<longrightarrow> process r = None \<and> cmdline r = None \<and> user r = None) \<and>
        (isl (proc_cmdline E p) \<longrightarrow> cmdline r = None \<and> user r = None) \<and>
        (isl (proc_username E p) \<longrightarrow> user r = None) \<and>
        (\<forall>x. \<not> isl (Process E p) \<and> proc_name E p = Inr x \<longrightarrow> process r = Some x))"
proof -
  let ?dm = "docker_map_or_empty docker_map"
  let ?records = "sort_key record_key (concat (map (appended E ?dm) conns))"
  have ok: "\<forall>c \<in> set conns. \<exists>ro. conn_record E ?dm c = Inr ro"
    using assms(2) conn_record_caught by blast
  have run: "collect_port_usage E docker_map = Inr ?records"
    using assms(1) conn_loop_total[OF ok, of "[]"]
    by (simp add: collect_port_usage_def)
  have len: "length ?records = length (filter listening_with_address conns)"
    using length_concat_appended[OF ok] by simp
  have fields: "(isl (Process E p) \<or> isl (proc_name E p)
           \<longrightarrow> process r = None \<and> cmdline r = None \<and> user r = None) \<and>
        (isl (proc_cmdline E p) \<longrightarrow> cmdline r = None \<and> user r = None) \<and>
        (isl (proc_username E p) \<longrightarrow> user r = None) \<and>
        (\<forall>x. \<not> isl (Process E p) \<and> proc_name E p = Inr x \<longrightarrow> process r = Some x)"
    if r: "r \<in> set ?records" and p: "pid r = Some p" "p \<noteq> 0" for r p
  proof -
    from r obtain c where c: "c \<in> set conns" "conn_record E ?dm c = Inr (Some r)"
      by (auto simp: in_appended)
    from conn_record_Some(6)[OF c(2)] p have "conn_pid c = Some p" by simp
    with assms(2) c(1) have "caught_failures_at E p" by blast
    from attribute_process_caught[OF this] conn_record_attribution[OF c(2) p]
    show ?thesis by auto
  qed
  show ?thesis
    apply (rule exI[of _ ?records])
    using run len fields by blast
qed

theorem attribution_failures_are_absorbed_witness:
  "net_connections demo_env = Inr demo_conns
   \<and> caught_failures_at demo_env 7 \<and> caught_failures_at demo_env 12
   \<and> caught_failures_at demo_env 40
   \<and> collect_port_usage demo_env None = Inr [bare_record_8080, demo_record_9090]
   \<and> pid demo_record_9090 = Some 12 \<and> isl (Process demo_env 12)
   \<and> process demo_record_9090 = None \<and> cmdline demo_record_9090 = None
   \<and> user demo_record_9090 = None
   \<and> pid bare_record_8080 = Some 7 \<and> isl (proc_cmdline demo_env 7)
   \<and> cmdline bare_record_8080 = None \<and> user bare_record_8080 = None"
proof -
  have conns: "net_connections demo_env = Inr demo_conns"
    by (simp add: demo_env_sel)
  have caught: "caught_failures_at demo_env p" for p
    by (simp add: caught_failures_at_def caught_by_attribution_def demo_env_def)
  then have all: "\<forall>c \<in> set demo_conns. \<forall>p. conn_pid c = Some p \<longrightarrow> caught_failures_at demo_env p"
    by blast
  from attribution_failures_are_absorbed[OF conns all, of None]
  show ?thesis
    using conns caught demo_usage_without_map
    by (simp add: demo_env_def demo_record_9090_def bare_record_8080_def)
qed

text \<open>
  Claim C7 as stated fails: for process id 7 the handle and the name are obtained, the
  command-line lookup raises "access denied", and the record keeps the process name.
\<close>

theorem name_kept_when_cmdline_lookup_fails:
  "Process demo_env 7 = Inr () \<and> proc_name demo_env 7 = Inr ''nginx''
   \<and> proc_cmdline demo_env 7 = Inl AccessDenied
   \<and> collect_port_usage demo_env None = Inr [bare_record_8080, demo_record_9090]
   \<and> pid bare_record_8080 = Some 7
   \<and> process bare_record_8080 = Some ''nginx''
   \<and> cmdline bare_record_8080 = None \<and> user bare_record_8080 = None"
  by (simp add: correlator_defs demo_defs)

subsection \<open>Order of the records\<close>

lemma three_key_order_iff: "three_key_order A B \<longleftrightarrow> record_key A \<le> record_key B"
  by (auto simp: three_key_order_def record_key_def)

lemma sorted_wrt_three_key_sort: "sorted_wrt three_key_order (sort_key record_key xs)"
proof -
  have "sorted (map record_key (sort_key record_key xs))" by simp
  then have "sorted_wrt (\<lambda>A B. record_key A \<le> record_key B) (sort_key record_key xs)"
    by (simp add: sorted_wrt_map)
  moreover have "(\<lambda>A B. record_key A \<le> record_key B) = three_key_order"
    by (intro ext) (simp add: three_key_order_iff)
  ultimately show ?thesis by simp
qed

lemma mset_concat_map_cong:
  assumes "mset xs = mset ys"
  shows "mset (concat (map f xs)) = mset (concat (map f ys))"
proof -
  have "mset (concat (map f zs)) = sum_mset (image_mset (\<lambda>z. mset (f z)) (mset zs))" for zs
    by (induction zs) simp_all
  with assms show ?thesis by simp
qed

lemma map_key_sort_key: "map f (sort_key f xs) = sort (map f xs)"
  by (rule sym, rule properties_for_sort) simp_all

lemma filter_same_key_distinct:
  "distinct (map f zs) \<Longrightarrow> k \<in> set zs \<Longrightarrow> filter (\<lambda>x. f k = f x) zs = [k]"
proof (induction zs)
  case Nil
  then show ?case by simp
next
  case (Cons z zs)
  show ?case
  proof (cases "k = z")
    case True
    have "filter (\<lambda>x. f z = f x) zs = []"
      using Cons.prems(1) by (auto simp: filter_empty_conv)
    with True show ?thesis by simp
  next
    case False
    with Cons.prems have k: "k \<in> set zs" and d: "distinct (map f zs)" by auto
    from k have "f k \<in> f ` set zs" by (rule imageI)
    moreover from Cons.prems(1) have "f z \<notin> f ` set zs" by simp
    ultimately have "f k \<noteq> f z" by metis
    with Cons.IH[OF d k] show ?thesis by simp
  qed
qed

lemma sort_key_perm_distinct:
  assumes "mset xs = mset ys" and "distinct (map f (sort_key f ys))"
  shows "sort_key f xs = sort_key f ys"
proof (rule properties_for_sort_key)
  show "mset (sort_key f ys) = mset xs" using assms(1) by simp
  show "sorted (map f (sort_key f ys))" by simp
  fix k assume k: "k \<in> set (sort_key f ys)"
  have "mset (map f xs) = mset (map f (sort_key f ys))" using assms(1) by simp
  with assms(2) have dx: "distinct (map f xs)"
    using mset_eq_imp_distinct_iff by blast
  from k assms(1) have kx: "k \<in> set xs"
    using mset_eq_setD by fastforce
  show "filter (\<lambda>x. f k = f x) (sort_key f ys) = filter (\<lambda>x. f k = f x) xs"
    using filter_same_key_distinct[OF assms(2) k] filter_same_key_distinct[OF dx kx] by simp
qed

lemma attribute_process_net_update:
  "attribute_process (E\<lparr>net_connections := x\<rparr>) p = attribute_process E p"
  by (auto simp: attribute_process_def split: sum.splits)

lemma conn_record_net_update:
  "conn_record (E\<lparr>net_connections := x\<rparr>) dm c = conn_record E dm c"
  unfolding conn_record_def attribute_process_net_update by (rule refl)

lemma appended_net_update: "appended (E\<lparr>net_connections := x\<rparr>) dm = appended E dm"
  by (intro ext) (simp add: appended_def conn_record_net_update)

text \<open>
  Claim C2, as amended. For every socket list the output is sorted by the three-key order:
  for a record A before a record B, A.proto < B.proto, or the protocols are equal and
  A.port < B.port, or protocols and ports are equal and A.ip <= B.ip. When the same
  sockets are enumerated in another order, the output has the same records and the same
  sequence of keys, and it is the same list whenever no two records share the key
  (proto, port, ip).
\<close>

theorem records_sorted_by_three_keys:
  assumes "collect_port_usage E docker_map = Inr records"
    and "net_connections E = Inr conns"
    and "mset conns' = mset conns"
  shows "sorted_wrt three_key_order records
     \<and> (\<exists>records'. collect_port_usage (E\<lparr>net_connections := Inr conns'\<rparr>) docker_map
                      = Inr records' \<and>
          mset records' = mset records \<and>
          map record_key records' = map record_key records \<and>
          (distinct (map record_key records) \<longrightarrow> records' = records))"
proof -
  let ?dm = "docker_map_or_empty docker_map"
  let ?E' = "E\<lparr>net_connections := Inr conns'\<rparr>"
  let ?xs = "concat (map (appended E ?dm) conns)"
  let ?xs' = "concat (map (appended E ?dm) conns')"
  from collect_port_usage_Inr[OF assms(1)] assms(2)
  have ok: "\<forall>c \<in> set conns. \<exists>ro. conn_record E ?dm c = Inr ro"
    and recs: "records = sort_key record_key ?xs"
    by auto
  have "set conns' = set conns" using assms(3) by (rule mset_eq_setD)
  with ok have ok': "\<forall>c \<in> set conns'. \<exists>ro. conn_record ?E' ?dm c = Inr ro"
    by (simp add: conn_record_net_update)
  have run': "collect_port_usage ?E' docker_map = Inr (sort_key record_key ?xs')"
    using conn_loop_total[OF ok', of "[]"]
    by (simp add: collect_port_usage_def appended_net_update)
  have perm: "mset ?xs' = mset ?xs"
    using assms(3) by (rule mset_concat_map_cong)
  have m: "mset (sort_key record_key ?xs') = mset records"
    using perm recs by simp
  have "mset (map record_key ?xs') = mset (map record_key ?xs)"
    using perm by simp
  then have "sort (map record_key ?xs') = sort (map record_key ?xs)"
    by (intro properties_for_sort) simp_all
  then have k: "map record_key (sort_key record_key ?xs') = map record_key records"
    using recs by (simp add: map_key_sort_key)
  have d: "distinct (map record_key records) \<longrightarrow> sort_key record_key ?xs' = records"
    using sort_key_perm_distinct[OF perm, of record_key] recs by simp
  have s: "sorted_wrt three_key_order records"
    using recs by (simp add: sorted_wrt_three_key_sort)
  show ?thesis
    using s run' m k d by blast
qed

theorem records_sorted_by_three_keys_witness:
  "collect_port_usage demo_env None = Inr [bare_record_8080, demo_record_9090]
   \<and> net_connections demo_env = Inr demo_conns
   \<and> mset (rev demo_conns) = mset demo_conns
   \<and> three_key_order bare_record_8080 demo_record_9090
   \<and> distinct (map record_key [bare_record_8080, demo_record_9090])
   \<and> collect_port_usage (demo_env\<lparr>net_connections := Inr (rev demo_conns)\<rparr>) None
       = Inr [bare_record_8080, demo_record_9090]"
proof -
  have run: "collect_port_usage demo_env None = Inr [bare_record_8080, demo_record_9090]"
    by (rule demo_usage_without_map)
  have conns: "net_connections demo_env = Inr demo_conns"
    by (simp add: demo_env_sel)
  have perm: "mset (rev demo_conns) = mset demo_conns" by simp
  have dist: "distinct (map record_key [bare_record_8080, demo_record_9090])"
    by (simp add: record_key_def bare_record_8080_def demo_record_9090_def)
  from records_sorted_by_three_keys[OF run conns perm] dist
  show ?thesis
    using run conns perm by auto
qed

text \<open>
  Claim C2 as stated fails in its last part: two processes hold the same listening
  socket, the two entries have the same key, and the output follows the order of
  enumeration.
\<close>

theorem output_order_follows_enumeration_on_equal_keys:
  "collect_port_usage (worker_env [worker_conn 10, worker_conn 20]) None
     = Inr [worker_record 10, worker_record 20]
   \<and> collect_port_usage (worker_env [worker_conn 20, worker_conn 10]) None
     = Inr [worker_record 20, worker_record 10]
   \<and> mset [worker_conn 20, worker_conn 10] = mset [worker_conn 10, worker_conn 20]
   \<and> [worker_record 10, worker_record 20] \<noteq> [worker_record 20, worker_record 10]"
  by (simp add: correlator_defs worker_env_def worker_conn_def worker_record_def demo_env_def)


subsection \<open>String methods on text of a known shape\<close>





















subsection \<open>Parsing an IPv4 and a bracketed IPv6 mapping\<close>


















subsection \<open>A container line with both mappings\<close>















subsection \<open>Failure of the container listing\<close>

lemma collect_port_usage_total:
  assumes "net_connections E = Inr conns"
    and "\<forall>c \<in> set conns. \<forall>p. conn_pid c = Some p \<longrightarrow> caught_failures_at E p"
  shows "\<exists>records. collect_port_usage E docker_map = Inr records \<and>
           length records = length (filter listening_with_address conns)"
proof -
  let ?dm = "docker_map_or_empty docker_map"
  have ok: "\<forall>c \<in> set conns. \<exists>ro. conn_record E ?dm c = Inr ro"
    using assms(2) conn_record_caught by blast
  have "collect_port_usage E docker_map
      = Inr (sort_key record_key (concat (map (appended E ?dm) conns)))"
    using assms(1) conn_loop_total[OF ok, of "[]"] by (simp add: collect_port_usage_def)
  then show ?thesis
    using length_concat_appended[OF ok] by simp
qed

lemma no_docker_fields_without_map:
  assumes "collect_port_usage E (Some Map.empty) = Inr records" and "r \<in> set records"
  shows "no_docker_fields r"
proof -
  from collect_port_usage_Inr[OF assms(1)] obtain conns where
    "records = sort_key record_key
       (concat (map (appended E (docker_map_or_empty (Some Map.empty))) conns))"
    by auto
  with assms(2) obtain c where
    "conn_record E (docker_map_or_empty (Some Map.empty)) c = Inr (Some r)"
    by (auto simp: in_appended)
  from conn_record_Some(8)[OF this] show ?thesis
    by (simp add: docker_map_or_empty_def)
qed

text \<open>
  Claim C6. When the listing binary is missing, or the listing command exits non-zero,
  the collector returns the empty mapping and metadata with \<open>available\<close> false, both
  counts zero and an error text: "docker binary not found", or "docker ps failed: "
  followed by the text of the exception. The report is still built: whenever the
  correlator returns its records for the empty mapping, the builder returns a report with
  this metadata and these records, none of which carries a container field; and the
  correlator does return when the socket enumeration succeeds and the process lookups
  raise only the three exceptions it catches. When the command succeeds and its output
  is empty or only whitespace, the metadata has \<open>available\<close> true and both counts zero.
\<close>

theorem collector_failure_is_not_fatal:
  assumes "docker_ps E = Inl FileNotFoundError \<or> docker_ps E = Inl (CalledProcessError msg)"
  shows "(\<exists>meta. collect_docker_port_mappings (docker_ps E) = Inr (Map.empty, meta) \<and>
            \<not> available meta \<and>
            error meta = Some (if docker_ps E = Inl FileNotFoundError
                               then ''docker binary not found''
                               else ''docker ps failed: '' @ msg) \<and>
            containers_total meta = 0 \<and> containers_with_published_ports meta = 0 \<and>
            (\<forall>records. collect_port_usage E (Some Map.empty) = Inr records \<longrightarrow>
               (\<forall>r \<in> set records. no_docker_fields r) \<and>
               (\<exists>rep. build_report E = Inr rep \<and> docker rep = meta \<and> ports rep = records)))
     \<and> (\<forall>conns. net_connections E = Inr conns \<and>
            (\<forall>c \<in> set conns. \<forall>p. conn_pid c = Some p \<longrightarrow> caught_failures_at E p) \<longrightarrow>
            (\<exists>rep. build_report E = Inr rep \<and>
               length (ports rep) = length (filter listening_with_address conns)))
     \<and> (\<forall>out. strip out = [] \<longrightarrow>
            collect_docker_port_mappings (Inr out)
              = Inr (Map.empty, initial_meta\<lparr>available := True\<rparr>) \<and>
            containers_total (initial_meta\<lparr>available := True\<rparr>) = 0 \<and>
            containers_with_published_ports (initial_meta\<lparr>available := True\<rparr>) = 0)"
proof -
  let ?text = "if docker_ps E = Inl FileNotFoundError
               then ''docker binary not found'' else ''docker ps failed: '' @ msg"
  let ?meta = "initial_meta\<lparr>error := Some ?text\<rparr>"
  have coll: "collect_docker_port_mappings (docker_ps E) = Inr (Map.empty, ?meta)"
    using assms by (auto simp: collect_docker_port_mappings_def)
  have meta: "\<not> available ?meta" "error ?meta = Some ?text" "containers_total ?meta = 0"
    "containers_with_published_ports ?meta = 0"
    by (simp_all add: initial_meta_def)
  have built: "(\<forall>r \<in> set records. no_docker_fields r) \<and>
       (\<exists>rep. build_report E = Inr rep \<and> docker rep = ?meta \<and> ports rep = records)"
    if "collect_port_usage E (Some Map.empty) = Inr records" for records
    using that no_docker_fields_without_map[OF that]
    by (simp add: build_report_def coll)
  have total: "\<exists>rep. build_report E = Inr rep \<and>
       length (ports rep) = length (filter listening_with_address conns)"
    if "net_connections E = Inr conns"
      and "\<forall>c \<in> set conns. \<forall>p. conn_pid c = Some p \<longrightarrow> caught_failures_at E p" for conns
  proof -
    from collect_port_usage_total[OF that, of "Some Map.empty"] obtain records where
      "collect_port_usage E (Some Map.empty) = Inr records"
      "length records = length (filter listening_with_address conns)"
      by blast
    then show ?thesis by (simp add: build_report_def coll)
  qed
  have empty: "collect_docker_port_mappings (Inr out)
              = Inr (Map.empty, initial_meta\<lparr>available := True\<rparr>) \<and>
            containers_total (initial_meta\<lparr>available := True\<rparr>) = 0 \<and>
            containers_with_published_ports (initial_meta\<lparr>available := True\<rparr>) = 0"
    if "strip out = []" for out
    using that by (simp add: collect_docker_port_mappings_def initial_meta_def)
  show ?thesis
    using coll meta built total empty by blast
qed


theorem collector_failure_is_not_fatal_witness:
  "docker_ps (demo_env\<lparr>docker_ps := Inl FileNotFoundError\<rparr>) = Inl FileNotFoundError
   \<and> collect_docker_port_mappings (Inl FileNotFoundError)
       = Inr (Map.empty, initial_meta\<lparr>error := Some ''docker binary not found''\<rparr>)
   \<and> collect_port_usage (demo_env\<lparr>docker_ps := Inl FileNotFoundError\<rparr>) (Some Map.empty)
       = Inr [bare_record_8080, demo_record_9090]
   \<and> no_docker_fields bare_record_8080 \<and> no_docker_fields demo_record_9090
   \<and> build_report (demo_env\<lparr>docker_ps := Inl FileNotFoundError\<rparr>)
       = Inr (demo_report\<lparr>docker := initial_meta\<lparr>error := Some ''docker binary not found''\<rparr>,
                          ports := [bare_record_8080, demo_record_9090]\<rparr>)
   \<and> docker_ps (demo_env\<lparr>docker_ps := Inl (CalledProcessError ''exit status 1'')\<rparr>)
       = Inl (CalledProcessError ''exit status 1'')
   \<and> collect_docker_port_mappings (Inl (CalledProcessError ''exit status 1''))
       = Inr (Map.empty, initial_meta\<lparr>error := Some ''docker ps failed: exit status 1''\<rparr>)
   \<and> strip [CHR 0x0A] = []
   \<and> collect_docker_port_mappings (Inr [CHR 0x0A])
       = Inr (Map.empty, initial_meta\<lparr>available := True\<rparr>)
   \<and> net_connections (demo_env\<lparr>docker_ps := Inl FileNotFoundError\<rparr>) = Inr demo_conns
   \<and> caught_failures_at (demo_env\<lparr>docker_ps := Inl FileNotFoundError\<rparr>) 7
   \<and> caught_failures_at (demo_env\<lparr>docker_ps := Inl FileNotFoundError\<rparr>) 12
   \<and> caught_failures_at (demo_env\<lparr>docker_ps := Inl FileNotFoundError\<rparr>) 40"
proof -
  let ?E = "demo_env\<lparr>docker_ps := Inl FileNotFoundError\<rparr>"
  let ?F = "demo_env\<lparr>docker_ps := Inl (CalledProcessError ''exit status 1'')\<rparr>"
  have missing: "docker_ps ?E = Inl FileNotFoundError \<or>
      docker_ps ?E = Inl (CalledProcessError ''exit status 1'')"
    by simp
  have failed: "docker_ps ?F = Inl FileNotFoundError \<or>
      docker_ps ?F = Inl (CalledProcessError ''exit status 1'')"
    by simp
  have usage: "collect_port_usage ?E (Some Map.empty) = Inr [bare_record_8080, demo_record_9090]"
    by (simp add: correlator_defs demo_defs)
  have blank: "strip [CHR 0x0A] = []"
    by (simp add: strip_def is_space_def)
  have rep: "build_report ?E
       = Inr (demo_report\<lparr>docker := initial_meta\<lparr>error := Some ''docker binary not found''\<rparr>,
                          ports := [bare_record_8080, demo_record_9090]\<rparr>)"
  proof -
    have sel: "docker_ps ?E = Inl FileNotFoundError" "gethostname ?E = ''lab''"
      "utc_now_iso ?E = ''2025-01-01T00:00:00+00:00''" "ip_local_port_range_file ?E = NoFile"
      by (simp_all add: demo_env_def)
    show ?thesis
      by (simp add: build_report_def usage sel collect_docker_port_mappings_def
          get_ip_local_port_range_def demo_report_def)
  qed
  have runs:
    "collect_docker_port_mappings (Inl FileNotFoundError)
       = Inr (Map.empty, initial_meta\<lparr>error := Some ''docker binary not found''\<rparr>)"
    "collect_docker_port_mappings (Inl (CalledProcessError ''exit status 1''))
       = Inr (Map.empty, initial_meta\<lparr>error := Some ''docker ps failed: exit status 1''\<rparr>)"
    "collect_docker_port_mappings (Inr [CHR 0x0A])
       = Inr (Map.empty, initial_meta\<lparr>available := True\<rparr>)"
    by (simp_all add: collect_docker_port_mappings_def blank)
  have bare: "no_docker_fields bare_record_8080" "no_docker_fields demo_record_9090"
    by (simp_all add: no_docker_fields_def bare_record_8080_def demo_record_9090_def)
  have conns: "net_connections ?E = Inr demo_conns"
    by (simp add: demo_env_sel)
  have caught: "caught_failures_at ?E p" for p
    by (simp add: caught_failures_at_def caught_by_attribution_def demo_env_def)
  from collector_failure_is_not_fatal[OF missing] collector_failure_is_not_fatal[OF failed]
  show ?thesis
    using usage blank rep runs bare conns caught by simp
qed

subsection \<open>Counting the containers\<close>

lemma process_line_total:
  "cs_total (process_line l st) = cs_total st + (if counted_line l then 1 else 0)"
proof (cases "strip l = []")
  case True
  then show ?thesis by (simp add: process_line_def counted_line_def)
next
  case False
  have len: "length (map strip (split_on (CHR 0x09) l)) = length (split_on (CHR 0x09) l)"
    by simp
  show ?thesis
  proof (cases "4 \<le> length (split_on (CHR 0x09) l)")
    case True
    then obtain a b c d rest where
      parts: "map strip (split_on (CHR 0x09) l) = a # b # c # d # rest"
      using len
      by (metis One_nat_def Suc_1 Suc_le_length_iff numeral_3_eq_3 numeral_Bit0
          add_2_eq_Suc')
    show ?thesis
      using False True
      by (simp add: process_line_def counted_line_def parts Let_def split: prod.splits)
  next
    case short: False
    then have "length (map strip (split_on (CHR 0x09) l)) < 4" by simp
    then have "process_line l st = st"
      using False
      by (auto simp: process_line_def split: list.splits)
    then show ?thesis using short by (simp add: counted_line_def)
  qed
qed

lemma lines_loop_total:
  "cs_total (lines_loop ls st) = cs_total st + length (filter counted_line ls)"
  by (induction ls arbitrary: st) (simp_all add: process_line_total)

lemma containers_total_counts_stripped_output:
  assumes "collect_docker_port_mappings (Inr out) = Inr (m, meta)"
  shows "containers_total meta = length (filter counted_line (splitlines (strip out)))"
  using assms
  by (auto simp: collect_docker_port_mappings_def Let_def initial_meta_def lines_loop_total
      splitlines_def split: if_splits)

text \<open>
  Claim C4 fails on the code. The listing of one running container without ports has one
  valid line, four tab-separated fields with the last one empty, and the collector reports
  \<open>containers_total = 0\<close>: the \<open>strip\<close> of the whole output takes the final tab away and
  leaves three fields. The same line is counted when another line follows it, and it is
  lost again when it is the last of two.
\<close>

theorem portless_last_container_not_counted:
  "valid_line_count portless_stdout = 1
   \<and> collect_docker_port_mappings (Inr portless_stdout)
       = Inr (Map.empty, initial_meta\<lparr>available := True, containers_total := 0,
                            containers_with_published_ports := 0\<rparr>)
   \<and> valid_line_count portless_first_stdout = 2
   \<and> containers_total (snd (projr (collect_docker_port_mappings (Inr portless_first_stdout)))) = 2
   \<and> valid_line_count portless_last_stdout = 2
   \<and> containers_total (snd (projr (collect_docker_port_mappings (Inr portless_last_stdout)))) = 1"
  by (simp add: valid_line_count_def portless_stdout_def portless_first_stdout_def
      portless_last_stdout_def portless_line_def demo_stdout_def collector_defs)

end
